theory Spec2Isabelle
  imports Complex_Main "HOL-Library.Multiset"
begin

section \<open>Streaming metrics of python/paddle/metric/metrics.py\<close>

text \<open>
  The four metric classes (Accuracy, Precision, Recall, Auc) are embedded as records of
  their attributes and as functions from the object before a call to the result of the
  call. A method that can raise returns \<open>error + 'a\<close> (\<open>Inl\<close> the exception), a method
  that assigns attributes returns the new object, and \<open>accumulate\<close> returns its value
  together with the object as the call leaves it. A call that raises yields the
  exception only: the object a failed \<open>update\<close> leaves behind (counters already
  advanced for the samples before the failing one) is not part of the result.

  Numbers: Python's \<open>int\<close> is \<open>int\<close>; a float (Python's, or an element of a numpy
  array) is a \<open>real\<close>, so arithmetic is exact: the embedding has no rounding error,
  no infinity and no NaN.
\<close>

subsection \<open>Exceptions, arguments, numpy helpers\<close>

datatype error =
    ValueError string
  | ZeroDivisionError
  | IndexError
  | AssertionError
  | ShapeError

text \<open>
  What a caller can pass for \<open>preds\<close> or \<open>labels\<close>: a \<open>paddle.Tensor\<close> holding an
  array, a numpy array, or any other object. (\<open>_is_numpy_\<close> accepts numpy scalars,
  \<open>np.generic\<close>, as well; they are not told apart from arrays here.)
\<close>

datatype 'a py_arg = Tensor 'a | Numpy 'a | Other

text \<open>\<open>_is_numpy_(var)\<close>: \<open>isinstance(var, (np.ndarray, np.generic))\<close>.\<close>

fun is_numpy :: "'a py_arg \<Rightarrow> bool" where
  "is_numpy (Numpy a) = True"
| "is_numpy (Tensor a) = False"
| "is_numpy Other = False"

text \<open>\<open>isinstance(var, paddle.Tensor)\<close>.\<close>

fun is_Tensor :: "'a py_arg \<Rightarrow> bool" where
  "is_Tensor (Tensor a) = True"
| "is_Tensor (Numpy a) = False"
| "is_Tensor Other = False"

text \<open>The array an accepted argument stands for (\<open>var.numpy()\<close> for a tensor).\<close>

fun numpy :: "'a py_arg \<Rightarrow> 'a option" where
  "numpy (Tensor a) = Some a"
| "numpy (Numpy a) = Some a"
| "numpy Other = None"

text \<open>Python's \<open>a / b\<close> on floats: division by zero raises.\<close>

definition truediv :: "real \<Rightarrow> real \<Rightarrow> error + real" where
  "truediv a b = (if b = 0 then Inl ZeroDivisionError else Inr (a / b))"

text \<open>Python's \<open>int(x)\<close> on a float: truncation towards zero.\<close>

definition py_int :: "real \<Rightarrow> int" where
  "py_int x = (if 0 \<le> x then \<lfloor>x\<rfloor> else \<lceil>x\<rceil>)"

text \<open>
  \<open>np.rint\<close>: the nearest integer, a tie going to the even neighbour (numpy's
  documented rounding).
\<close>

definition rint :: "real \<Rightarrow> int" where
  "rint x =
     (let f = \<lfloor>x\<rfloor>; d = x - of_int f in
      if d < 1 / 2 then f
      else if 1 / 2 < d then f + 1
      else if even f then f else f + 1)"

text \<open>
  The position an index \<open>i\<close> denotes in a numpy array of length \<open>n\<close>: a negative index
  counts from the end, anything outside \<open>-n \<le> i < n\<close> raises IndexError.
\<close>

definition np_index :: "nat \<Rightarrow> int \<Rightarrow> error + nat" where
  "np_index n i =
     (if 0 \<le> i \<and> i < int n then Inr (nat i)
      else if - int n \<le> i \<and> i < 0 then Inr (nat (int n + i))
      else Inl IndexError)"

subsection \<open>Accuracy\<close>

text \<open>
  The attributes \<open>total\<close> and \<open>count\<close> are the fields \<open>total_acc\<close> and \<open>count_acc\<close>
  (HOL has constants of the source's names). \<open>topk\<close> holds positive integers, here
  naturals, so that \<open>correct[:, :k]\<close> is the first \<open>k\<close> columns.
\<close>

record Accuracy =
  topk :: "nat list"
  maxk :: nat
  total_acc :: "real list"
  count_acc :: "int list"

text \<open>The value \<open>update\<close> and \<open>accumulate\<close> return: one float when there is one cutoff,
  the list of floats otherwise.\<close>

datatype acc_value = Scalar real | Sequence "real list"

text \<open>\<open>reset\<close>: \<open>total = [0.] * len(topk)\<close>, \<open>count = [0] * len(topk)\<close>.\<close>

definition Accuracy_reset :: "Accuracy \<Rightarrow> Accuracy" where
  "Accuracy_reset self =
     self\<lparr>total_acc := replicate (length (topk self)) 0,
          count_acc := replicate (length (topk self)) 0\<rparr>"

text \<open>\<open>__init__\<close>: \<open>max(topk)\<close> raises ValueError on an empty \<open>topk\<close>.\<close>

definition Accuracy_init :: "nat list \<Rightarrow> error + Accuracy" where
  "Accuracy_init tk =
     (if tk = [] then Inl (ValueError ''max() arg is an empty sequence'')
      else Inr (Accuracy_reset
        \<lparr>topk = tk, maxk = foldr max tk 0, total_acc = [], count_acc = []\<rparr>))"

text \<open>
  Modelled from the spec: \<open>paddle.argsort(pred, descending=True)\<close> is not under src/.
  For each sample it ranks the class scores in descending order and yields the class
  indices in that order; equal scores keep their index order here.
\<close>

definition argsort_descending :: "real list \<Rightarrow> nat list" where
  "argsort_descending row = sort_key (\<lambda>j. - (row ! j)) [0..<length row]"

text \<open>
  \<open>compute\<close>: the top \<open>maxk\<close> indices of every row, compared with the row's label and
  cast to 0/1. \<open>label\<close> has the documented shape [batch_size, 1]: one row of one label
  per sample. Any other shape is reported as \<open>ShapeError\<close> (there the framework
  broadcasts or raises, which no statement below looks at).
\<close>

definition Accuracy_compute ::
  "Accuracy \<Rightarrow> real list list \<Rightarrow> int list list \<Rightarrow> error + real list list" where
  "Accuracy_compute self pred label =
     (let pred = map (\<lambda>row. take (maxk self) (argsort_descending row)) pred in
      if length label \<noteq> length pred \<or> list_ex (\<lambda>l. length l \<noteq> 1) label
      then Inl ShapeError
      else Inr (map2 (\<lambda>row l. map (\<lambda>j. if int j = hd l then 1 else 0) row) pred label))"

text \<open>
  The loop of \<open>update\<close> over \<open>enumerate(self.topk)\<close>. \<open>correct[:, :k].sum()\<close> adds the
  first \<open>k\<close> columns of every row; the division by \<open>len(correct)\<close> comes before the two
  assignments, as in the source.
\<close>

fun Accuracy_update_loop ::
  "real list list \<Rightarrow> (nat \<times> nat) list \<Rightarrow> real list \<Rightarrow> Accuracy \<Rightarrow>
   error + (real list \<times> Accuracy)" where
  "Accuracy_update_loop correct [] accs self = Inr (accs, self)"
| "Accuracy_update_loop correct ((i, k) # rest) accs self =
     (let num_corrects = sum_list (map (\<lambda>row. sum_list (take k row)) correct);
          num_samples = int (length correct)
      in case truediv num_corrects (of_int num_samples) of
           Inl e \<Rightarrow> Inl e
         | Inr a \<Rightarrow>
             if length (total_acc self) \<le> i \<or> length (count_acc self) \<le> i
             then Inl IndexError
             else Accuracy_update_loop correct rest (accs @ [a])
                    (self\<lparr>total_acc := (total_acc self)[i := total_acc self ! i + num_corrects],
                          count_acc := (count_acc self)[i := count_acc self ! i + num_samples]\<rparr>))"

text \<open>\<open>res[0] if len(self.topk) == 1 else res\<close>.\<close>

definition collapse :: "nat list \<Rightarrow> real list \<Rightarrow> error + acc_value" where
  "collapse tk res =
     (if length tk = 1
      then (case res of [] \<Rightarrow> Inl IndexError | r # rs \<Rightarrow> Inr (Scalar r))
      else Inr (Sequence res))"

text \<open>\<open>update(correct)\<close>, on the array the argument stands for.\<close>

definition Accuracy_update ::
  "Accuracy \<Rightarrow> real list list \<Rightarrow> error + (acc_value \<times> Accuracy)" where
  "Accuracy_update self correct =
     (case Accuracy_update_loop correct (enumerate 0 (topk self)) [] self of
        Inl e \<Rightarrow> Inl e
      | Inr (accs, self') \<Rightarrow>
          (case collapse (topk self') accs of
             Inl e \<Rightarrow> Inl e
           | Inr v \<Rightarrow> Inr (v, self')))"

text \<open>The loop of \<open>accumulate\<close> over \<open>zip(self.total, self.count)\<close>.\<close>

fun Accuracy_accumulate_loop :: "(real \<times> int) list \<Rightarrow> real list \<Rightarrow> error + real list" where
  "Accuracy_accumulate_loop [] res = Inr res"
| "Accuracy_accumulate_loop ((t, c) # rest) res =
     (if c > 0
      then (case truediv t (of_int c) of
              Inl e \<Rightarrow> Inl e
            | Inr r \<Rightarrow> Accuracy_accumulate_loop rest (res @ [r]))
      else Accuracy_accumulate_loop rest (res @ [0]))"

definition Accuracy_accumulate :: "Accuracy \<Rightarrow> (error + acc_value) \<times> Accuracy" where
  "Accuracy_accumulate self =
     ((case Accuracy_accumulate_loop (zip (total_acc self) (count_acc self)) [] of
         Inl e \<Rightarrow> Inl e
       | Inr res \<Rightarrow> collapse (topk self) res),
      self)"

subsection \<open>Precision\<close>

record Precision =
  tp :: int
  fp :: int

definition Precision_init :: Precision where
  "Precision_init = \<lparr>tp = 0, fp = 0\<rparr>"

definition Precision_reset :: "Precision \<Rightarrow> Precision" where
  "Precision_reset self = self\<lparr>tp := 0, fp := 0\<rparr>"

text \<open>The loop \<open>for i in range(sample_num)\<close> over the rounded predictions.\<close>

fun Precision_update_loop ::
  "int list \<Rightarrow> int list \<Rightarrow> nat list \<Rightarrow> Precision \<Rightarrow> error + Precision" where
  "Precision_update_loop preds labels [] self = Inr self"
| "Precision_update_loop preds labels (i # rest) self =
     (if length preds \<le> i \<or> length labels \<le> i then Inl IndexError
      else
        let pred = preds ! i; label = labels ! i in
        Precision_update_loop preds labels rest
          (if pred = 1
           then (if pred = label then self\<lparr>tp := tp self + 1\<rparr>
                 else self\<lparr>fp := fp self + 1\<rparr>)
           else self))"

text \<open>
  \<open>update(preds, labels)\<close>. \<open>np.floor(preds + 0.5).astype("int32")\<close> is the integer
  \<open>\<lfloor>p + 1/2\<rfloor>\<close>: the loop only asks whether it is 1, which a 32-bit cast does not
  change.
\<close>

definition Precision_update ::
  "Precision \<Rightarrow> real list py_arg \<Rightarrow> int list py_arg \<Rightarrow> error + Precision" where
  "Precision_update self preds labels =
     (case numpy preds of
        None \<Rightarrow> Inl (ValueError ''The 'preds' must be a numpy ndarray or Tensor.'')
      | Some preds \<Rightarrow>
     (case numpy labels of
        None \<Rightarrow> Inl (ValueError ''The 'labels' must be a numpy ndarray or Tensor.'')
      | Some labels \<Rightarrow>
          let sample_num = length labels;
              preds = map (\<lambda>p. \<lfloor>p + 0.5\<rfloor>) preds
          in Precision_update_loop preds labels [0..<sample_num] self))"

definition Precision_accumulate :: "Precision \<Rightarrow> (error + real) \<times> Precision" where
  "Precision_accumulate self =
     (let ap = tp self + fp self in
      (if ap \<noteq> 0 then truediv (of_int (tp self)) (of_int ap) else Inr 0, self))"

subsection \<open>Recall\<close>

text \<open>
  Recall has a counter \<open>tp\<close> of its own: below, \<open>Precision.tp\<close> and \<open>Recall.tp\<close>
  tell the two fields apart.
\<close>

record Recall =
  tp :: int
  fn :: int

definition Recall_init :: Recall where
  "Recall_init = \<lparr>tp = 0, fn = 0\<rparr>"

definition Recall_reset :: "Recall \<Rightarrow> Recall" where
  "Recall_reset self = self\<lparr>tp := 0, fn := 0\<rparr>"

fun Recall_update_loop ::
  "int list \<Rightarrow> int list \<Rightarrow> nat list \<Rightarrow> Recall \<Rightarrow> error + Recall" where
  "Recall_update_loop preds labels [] self = Inr self"
| "Recall_update_loop preds labels (i # rest) self =
     (if length preds \<le> i \<or> length labels \<le> i then Inl IndexError
      else
        let pred = preds ! i; label = labels ! i in
        Recall_update_loop preds labels rest
          (if label = 1
           then (if pred = label then self\<lparr>tp := tp self + 1\<rparr>
                 else self\<lparr>fn := fn self + 1\<rparr>)
           else self))"

text \<open>\<open>update(preds, labels)\<close>, with \<open>np.rint(preds).astype("int32")\<close>.\<close>

definition Recall_update ::
  "Recall \<Rightarrow> real list py_arg \<Rightarrow> int list py_arg \<Rightarrow> error + Recall" where
  "Recall_update self preds labels =
     (case numpy preds of
        None \<Rightarrow> Inl (ValueError ''The 'preds' must be a numpy ndarray or Tensor.'')
      | Some preds \<Rightarrow>
     (case numpy labels of
        None \<Rightarrow> Inl (ValueError ''The 'labels' must be a numpy ndarray or Tensor.'')
      | Some labels \<Rightarrow>
          let sample_num = length labels;
              preds = map rint preds
          in Recall_update_loop preds labels [0..<sample_num] self))"

definition Recall_accumulate :: "Recall \<Rightarrow> (error + real) \<times> Recall" where
  "Recall_accumulate self =
     (let recall = tp self + fn self in
      (if recall \<noteq> 0 then truediv (of_int (tp self)) (of_int recall) else Inr 0, self))"

subsection \<open>Auc\<close>

record Auc =
  num_thresholds :: int
  stat_pos :: "real list"
  stat_neg :: "real list"

text \<open>\<open>np.zeros(n)\<close> raises ValueError on a negative \<open>n\<close>.\<close>

definition np_zeros :: "int \<Rightarrow> error + real list" where
  "np_zeros n =
     (if n < 0 then Inl (ValueError ''negative dimensions are not allowed'')
      else Inr (replicate (nat n) 0))"

definition Auc_reset :: "Auc \<Rightarrow> error + Auc" where
  "Auc_reset self =
     (let num_pred_buckets = num_thresholds self + 1 in
      case np_zeros num_pred_buckets of
        Inl e \<Rightarrow> Inl e
      | Inr z \<Rightarrow> Inr (self\<lparr>stat_pos := z, stat_neg := z\<rparr>))"

definition Auc_init :: "int \<Rightarrow> error + Auc" where
  "Auc_init n =
     (let num_pred_buckets = n + 1 in
      case np_zeros num_pred_buckets of
        Inl e \<Rightarrow> Inl e
      | Inr z \<Rightarrow> Inr \<lparr>num_thresholds = n, stat_pos = z, stat_neg = z\<rparr>)"

text \<open>
  The loop of \<open>update\<close> over \<open>enumerate(labels)\<close>. \<open>preds\<close> has shape [batch, 2], a row
  is a pair, and \<open>preds[i, 1]\<close> is its second component; a label is true when it is
  not zero.
\<close>

fun Auc_update_loop ::
  "(real \<times> real) list \<Rightarrow> (nat \<times> int) list \<Rightarrow> Auc \<Rightarrow> error + Auc" where
  "Auc_update_loop preds [] self = Inr self"
| "Auc_update_loop preds ((i, lbl) # rest) self =
     (if length preds \<le> i then Inl IndexError
      else
        let value = snd (preds ! i);
            bin_idx = py_int (value * of_int (num_thresholds self))
        in
        if \<not> bin_idx \<le> num_thresholds self then Inl AssertionError
        else if lbl \<noteq> 0 then
          (case np_index (length (stat_pos self)) bin_idx of
             Inl e \<Rightarrow> Inl e
           | Inr j \<Rightarrow>
               Auc_update_loop preds rest
                 (self\<lparr>stat_pos := (stat_pos self)[j := stat_pos self ! j + 1]\<rparr>))
        else
          (case np_index (length (stat_neg self)) bin_idx of
             Inl e \<Rightarrow> Inl e
           | Inr j \<Rightarrow>
               Auc_update_loop preds rest
                 (self\<lparr>stat_neg := (stat_neg self)[j := stat_neg self ! j + 1]\<rparr>)))"

definition Auc_update ::
  "Auc \<Rightarrow> (real \<times> real) list py_arg \<Rightarrow> int list py_arg \<Rightarrow> error + Auc" where
  "Auc_update self preds labels =
     (case numpy labels of
        None \<Rightarrow> Inl (ValueError ''The 'labels' must be a numpy ndarray or Tensor.'')
      | Some labels \<Rightarrow>
     (case numpy preds of
        None \<Rightarrow> Inl (ValueError ''The 'preds' must be a numpy ndarray or Tensor.'')
      | Some preds \<Rightarrow> Auc_update_loop preds (enumerate 0 labels) self))"

definition trapezoid_area :: "real \<Rightarrow> real \<Rightarrow> real \<Rightarrow> real \<Rightarrow> real" where
  "trapezoid_area x1 x2 y1 y2 = \<bar>x1 - x2\<bar> * (y1 + y2) / 2"

text \<open>
  The loop \<open>while idx >= 0\<close> of \<open>accumulate\<close>, with its locals \<open>tot_pos\<close>, \<open>tot_neg\<close>
  and \<open>auc\<close>; it returns them as they stand when the loop ends.
\<close>

function Auc_accumulate_loop ::
  "Auc \<Rightarrow> int \<Rightarrow> real \<Rightarrow> real \<Rightarrow> real \<Rightarrow> error + (real \<times> real \<times> real)" where
  "Auc_accumulate_loop self idx tot_pos tot_neg auc =
     (if idx \<ge> 0 then
        (case np_index (length (stat_pos self)) idx of
           Inl e \<Rightarrow> Inl e
         | Inr jp \<Rightarrow>
        (case np_index (length (stat_neg self)) idx of
           Inl e \<Rightarrow> Inl e
         | Inr jn \<Rightarrow>
             let tot_pos_prev = tot_pos;
                 tot_neg_prev = tot_neg;
                 tot_pos = tot_pos + stat_pos self ! jp;
                 tot_neg = tot_neg + stat_neg self ! jn;
                 auc = auc + trapezoid_area tot_neg tot_neg_prev tot_pos tot_pos_prev
             in Auc_accumulate_loop self (idx - 1) tot_pos tot_neg auc))
      else Inr (tot_pos, tot_neg, auc))"
  by pat_completeness auto
termination
  by (relation "measure (\<lambda>(self, idx, tot_pos, tot_neg, auc). nat (idx + 1))") auto

declare Auc_accumulate_loop.simps [simp del]

text \<open>
  \<open>accumulate\<close>: \<open>auc / tot_pos / tot_neg if tot_pos > 0.0 and tot_neg > 0.0 else 0.0\<close>.
  Both divisions are written with \<open>truediv\<close>, which raises on a zero divisor.
\<close>

definition Auc_accumulate :: "Auc \<Rightarrow> (error + real) \<times> Auc" where
  "Auc_accumulate self =
     ((case Auc_accumulate_loop self (num_thresholds self) 0 0 0 of
         Inl e \<Rightarrow> Inl e
       | Inr (tot_pos, tot_neg, auc) \<Rightarrow>
           if tot_pos > 0 \<and> tot_neg > 0
           then (case truediv auc tot_pos of
                   Inl e \<Rightarrow> Inl e
                 | Inr q \<Rightarrow> truediv q tot_neg)
           else Inr 0),
      self)"

section \<open>Drivers, invariants and specification-level definitions\<close>

text \<open>
  The definitions of this section are not functions of the source: they are the
  caller's loop of the class documentation (\<open>for prediction, label in ...:
  m.update(prediction, label)\<close>), the invariants the constructors establish, and the
  specification's wording of what \<open>update\<close> and \<open>accumulate\<close> compute, against
  which the source functions above are compared.
\<close>

subsection \<open>Feeding a sequence of batches\<close>


fun Precision_feed :: "Precision \<Rightarrow> (real \<times> int) list list \<Rightarrow> error + Precision" where
  "Precision_feed self [] = Inr self"
| "Precision_feed self (b # bs) =
     (case Precision_update self (Numpy (map fst b)) (Numpy (map snd b)) of
        Inl e \<Rightarrow> Inl e
      | Inr self' \<Rightarrow> Precision_feed self' bs)"

fun Recall_feed :: "Recall \<Rightarrow> (real \<times> int) list list \<Rightarrow> error + Recall" where
  "Recall_feed self [] = Inr self"
| "Recall_feed self (b # bs) =
     (case Recall_update self (Numpy (map fst b)) (Numpy (map snd b)) of
        Inl e \<Rightarrow> Inl e
      | Inr self' \<Rightarrow> Recall_feed self' bs)"


subsection \<open>Invariants of constructed objects\<close>

text \<open>
  \<open>Accuracy.__init__\<close> and \<open>reset\<close> make \<open>total\<close> and \<open>count\<close> as long as a
  non-empty \<open>topk\<close>; \<open>Auc.__init__\<close> and \<open>reset\<close> make both histograms
  \<open>num_thresholds + 1\<close> long. \<open>update\<close> keeps the lengths.
\<close>

definition Accuracy_inv :: "Accuracy \<Rightarrow> bool" where
  "Accuracy_inv self \<longleftrightarrow>
     topk self \<noteq> [] \<and>
     length (total_acc self) = length (topk self) \<and>
     length (count_acc self) = length (topk self)"

definition Auc_inv :: "Auc \<Rightarrow> bool" where
  "Auc_inv self \<longleftrightarrow>
     0 \<le> num_thresholds self \<and>
     length (stat_pos self) = nat (num_thresholds self + 1) \<and>
     length (stat_neg self) = nat (num_thresholds self + 1)"

subsection \<open>What one batch adds\<close>




text \<open>
  Precision: among the samples whose rounded prediction is 1, those whose label equals
  it count as \<open>tp\<close>, the others as \<open>fp\<close>.
\<close>

definition Precision_add :: "(real \<times> int) list \<Rightarrow> Precision \<Rightarrow> Precision" where
  "Precision_add xs self =
     self\<lparr>Precision.tp := Precision.tp self +
            int (length (filter (\<lambda>(p, l). \<lfloor>p + 0.5\<rfloor> = 1 \<and> \<lfloor>p + 0.5\<rfloor> = l) xs)),
          fp := fp self +
            int (length (filter (\<lambda>(p, l). \<lfloor>p + 0.5\<rfloor> = 1 \<and> \<lfloor>p + 0.5\<rfloor> \<noteq> l) xs))\<rparr>"

text \<open>
  Recall: among the samples whose label is 1, those whose rounded prediction equals it
  count as \<open>tp\<close>, the others as \<open>fn\<close>.
\<close>

definition Recall_add :: "(real \<times> int) list \<Rightarrow> Recall \<Rightarrow> Recall" where
  "Recall_add xs self =
     self\<lparr>Recall.tp := Recall.tp self +
            int (length (filter (\<lambda>(p, l). l = 1 \<and> rint p = l) xs)),
          fn := fn self +
            int (length (filter (\<lambda>(p, l). l = 1 \<and> rint p \<noteq> l) xs))\<rparr>"

text \<open>
  Auc: a sample with positive-class probability \<open>v\<close> adds one to bucket
  \<open>\<lfloor>v * num_thresholds\<rfloor>\<close> of \<open>stat_pos\<close> when its label is true, of \<open>stat_neg\<close>
  otherwise.
\<close>

definition Auc_put :: "(real \<times> real) \<times> int \<Rightarrow> Auc \<Rightarrow> Auc" where
  "Auc_put x self =
     (let j = nat \<lfloor>snd (fst x) * of_int (num_thresholds self)\<rfloor> in
      if snd x \<noteq> 0
      then self\<lparr>stat_pos := (stat_pos self)[j := stat_pos self ! j + 1]\<rparr>
      else self\<lparr>stat_neg := (stat_neg self)[j := stat_neg self ! j + 1]\<rparr>)"

subsection \<open>The specification of \<open>Auc.accumulate\<close>\<close>

text \<open>
  Written from the specification's words: one step of the walk computes the trapezoid
  area \<open>|x1 - x2| * (y1 + y2) / 2\<close> between the previous pair \<open>(x1, y1)\<close> and the
  current pair \<open>(x2, y2)\<close> of cumulative totals, with \<open>x = tot_neg\<close> and
  \<open>y = tot_pos\<close>, and adds it to \<open>auc\<close>.
\<close>

definition Auc_spec_step ::
  "real list \<Rightarrow> real list \<Rightarrow> nat \<Rightarrow> real \<times> real \<times> real \<Rightarrow> real \<times> real \<times> real" where
  "Auc_spec_step pos neg idx acc =
     (case acc of (tot_pos, tot_neg, auc) \<Rightarrow>
        let x1 = tot_neg; y1 = tot_pos;
            x2 = tot_neg + neg ! idx; y2 = tot_pos + pos ! idx
        in (y2, x2, auc + \<bar>x1 - x2\<bar> * (y1 + y2) / 2))"

text \<open>The walk visits the buckets \<open>num_thresholds, ..., 1, 0\<close> in this order.\<close>

definition Auc_spec_walk :: "Auc \<Rightarrow> real \<times> real \<times> real" where
  "Auc_spec_walk self =
     fold (Auc_spec_step (stat_pos self) (stat_neg self))
       (rev [0..<nat (num_thresholds self + 1)]) (0, 0, 0)"

text \<open>The result: \<open>auc / tot_pos / tot_neg\<close> when both totals are positive, else 0.\<close>

definition Auc_accumulate_spec :: "Auc \<Rightarrow> real" where
  "Auc_accumulate_spec self =
     (case Auc_spec_walk self of (tot_pos, tot_neg, auc) \<Rightarrow>
        if tot_pos > 0 \<and> tot_neg > 0 then auc / tot_pos / tot_neg else 0)"


section \<open>Properties of the loops\<close>

subsection \<open>Arguments\<close>

text \<open>An argument is rejected exactly when it is neither a tensor nor a numpy value.\<close>

lemma numpy_None_iff: "numpy x = None \<longleftrightarrow> \<not> is_Tensor x \<and> \<not> is_numpy x"
  by (cases x) simp_all

subsection \<open>Accuracy\<close>

text \<open>
  The loop of \<open>update\<close> on a mask with rows adds, at every position of \<open>topk\<close>, the
  column sum to \<open>total\<close> and the batch size to \<open>count\<close>; feeding batches one after
  the other adds what their concatenation adds, which depends on the rows as a multiset
  only.
\<close>

lemma Accuracy_update_empty:
  "topk self \<noteq> [] \<Longrightarrow> Accuracy_update self [] = Inl ZeroDivisionError"
  by (cases "topk self") (simp_all add: Accuracy_update_def enumerate_eq_zip truediv_def upt_rec)

lemma Accuracy_accumulate_loop_no_zerodiv:
  "Accuracy_accumulate_loop tcs res \<noteq> Inl e"
  by (induction tcs res rule: Accuracy_accumulate_loop.induct) (simp_all add: truediv_def)

lemma Accuracy_accumulate_loop_total:
  "\<exists>r. Accuracy_accumulate_loop tcs res = Inr r"
  using Accuracy_accumulate_loop_no_zerodiv[of tcs res]
  by (cases "Accuracy_accumulate_loop tcs res") auto

lemma Accuracy_accumulate_loop_zeros:
  "Accuracy_accumulate_loop (replicate n (0, 0)) res = Inr (res @ replicate n 0)"
proof (induction n arbitrary: res)
  case 0
  show ?case by simp
next
  case (Suc n)
  have "Accuracy_accumulate_loop (replicate (Suc n) (0, 0)) res =
        Accuracy_accumulate_loop (replicate n (0, 0)) (res @ [0])"
    by simp
  also have "\<dots> = Inr ((res @ [0]) @ replicate n 0)"
    by (rule Suc.IH)
  finally show ?case by simp
qed

lemma Accuracy_accumulate_reset:
  "fst (Accuracy_accumulate (Accuracy_reset m)) =
     (if length (topk m) = 1 then Inr (Scalar 0)
      else Inr (Sequence (replicate (length (topk m)) 0)))"
proof -
  have "Accuracy_accumulate_loop
          (zip (replicate (length (topk m)) 0) (replicate (length (topk m)) 0)) [] =
        Inr (replicate (length (topk m)) 0)"
    using Accuracy_accumulate_loop_zeros[of "length (topk m)" "[]"]
    by (simp add: zip_replicate)
  then show ?thesis
    by (simp add: Accuracy_accumulate_def Accuracy_reset_def collapse_def)
qed



lemma Accuracy_init_inv: "Accuracy_init tk = Inr self \<Longrightarrow> Accuracy_inv self"
  by (auto simp: Accuracy_init_def Accuracy_reset_def Accuracy_inv_def split: if_splits)

lemma Accuracy_reset_inv: "topk self \<noteq> [] \<Longrightarrow> Accuracy_inv (Accuracy_reset self)"
  by (simp add: Accuracy_reset_def Accuracy_inv_def)












subsection \<open>Precision and Recall\<close>

text \<open>
  The index loops are followed with the arrays split into the part already visited and
  the part to come; their result is a pair of counts over the zipped arrays.
\<close>

lemma rint_nearest: "\<bar>x - of_int (rint x)\<bar> \<le> 1 / 2"
proof -
  define d where "d = x - of_int \<lfloor>x\<rfloor>"
  have d: "0 \<le> d" "d < 1" unfolding d_def by linarith+
  have x: "x = of_int \<lfloor>x\<rfloor> + d" by (simp add: d_def)
  consider "d < 1 / 2" | "1 / 2 < d" | "d = 1 / 2" by linarith
  then show ?thesis
  proof cases
    case 1
    then have "rint x = \<lfloor>x\<rfloor>" by (simp add: rint_def Let_def d_def)
    then show ?thesis using d 1 by (simp add: d_def)
  next
    case 2
    then have "rint x = \<lfloor>x\<rfloor> + 1" by (simp add: rint_def Let_def d_def)
    then show ?thesis using d 2 by (simp add: d_def)
  next
    case 3
    then have "rint x = \<lfloor>x\<rfloor> \<or> rint x = \<lfloor>x\<rfloor> + 1" by (simp add: rint_def Let_def d_def)
    then show ?thesis using 3 by (auto simp: d_def)
  qed
qed

lemma Precision_update_loop_offset:
  "length pre_l = length pre_p \<Longrightarrow> length ls \<le> length ps \<Longrightarrow>
   Precision_update_loop (pre_p @ ps) (pre_l @ ls)
     [length pre_p..<length pre_p + length ls] self =
   Inr (self\<lparr>Precision.tp := Precision.tp self +
               int (length (filter (\<lambda>(p, l). p = 1 \<and> p = l) (zip ps ls))),
             fp := fp self +
               int (length (filter (\<lambda>(p, l). p = 1 \<and> p \<noteq> l) (zip ps ls)))\<rparr>)"
proof (induction ls arbitrary: ps pre_p pre_l self)
  case Nil
  show ?case by simp
next
  case (Cons l ls)
  from Cons.prems(2) obtain p ps' where ps: "ps = p # ps'"
    by (cases ps) auto
  let ?k = "length pre_p"
  let ?s = "if p = 1 then (if p = l then self\<lparr>Precision.tp := Precision.tp self + 1\<rparr>
                          else self\<lparr>fp := fp self + 1\<rparr>) else self"
  have idx: "[?k..<?k + length (l # ls)] =
             ?k # [length (pre_p @ [p])..<length (pre_p @ [p]) + length ls]"
    using upt_conv_Cons[of ?k "?k + Suc (length ls)"] by simp
  have step: "Precision_update_loop (pre_p @ ps) (pre_l @ l # ls) [?k..<?k + length (l # ls)] self =
        Precision_update_loop ((pre_p @ [p]) @ ps') ((pre_l @ [l]) @ ls)
          [length (pre_p @ [p])..<length (pre_p @ [p]) + length ls] ?s"
    unfolding idx using Cons.prems(1) by (simp add: ps nth_append Let_def)
  have ih: "Precision_update_loop ((pre_p @ [p]) @ ps') ((pre_l @ [l]) @ ls)
          [length (pre_p @ [p])..<length (pre_p @ [p]) + length ls] ?s =
     Inr (?s\<lparr>Precision.tp := Precision.tp ?s +
               int (length (filter (\<lambda>(p, l). p = 1 \<and> p = l) (zip ps' ls))),
             fp := fp ?s +
               int (length (filter (\<lambda>(p, l). p = 1 \<and> p \<noteq> l) (zip ps' ls)))\<rparr>)"
    using Cons.prems by (intro Cons.IH) (simp_all add: ps)
  show ?case
    unfolding step ih by (simp add: ps)
qed

lemma Precision_update_loop_counts:
  assumes "length ls \<le> length ps"
  shows "Precision_update_loop ps ls [0..<length ls] self =
   Inr (self\<lparr>Precision.tp := Precision.tp self +
               int (length (filter (\<lambda>(p, l). p = 1 \<and> p = l) (zip ps ls))),
             fp := fp self +
               int (length (filter (\<lambda>(p, l). p = 1 \<and> p \<noteq> l) (zip ps ls)))\<rparr>)"
  using Precision_update_loop_offset[of "[]" "[]" ls ps self] assms by simp

lemma Recall_update_loop_offset:
  "length pre_l = length pre_p \<Longrightarrow> length ls \<le> length ps \<Longrightarrow>
   Recall_update_loop (pre_p @ ps) (pre_l @ ls)
     [length pre_p..<length pre_p + length ls] self =
   Inr (self\<lparr>Recall.tp := Recall.tp self +
               int (length (filter (\<lambda>(p, l). l = 1 \<and> p = l) (zip ps ls))),
             fn := fn self +
               int (length (filter (\<lambda>(p, l). l = 1 \<and> p \<noteq> l) (zip ps ls)))\<rparr>)"
proof (induction ls arbitrary: ps pre_p pre_l self)
  case Nil
  show ?case by simp
next
  case (Cons l ls)
  from Cons.prems(2) obtain p ps' where ps: "ps = p # ps'"
    by (cases ps) auto
  let ?k = "length pre_p"
  let ?s = "if l = 1 then (if p = l then self\<lparr>Recall.tp := Recall.tp self + 1\<rparr>
                          else self\<lparr>fn := fn self + 1\<rparr>) else self"
  have idx: "[?k..<?k + length (l # ls)] =
             ?k # [length (pre_p @ [p])..<length (pre_p @ [p]) + length ls]"
    using upt_conv_Cons[of ?k "?k + Suc (length ls)"] by simp
  have step: "Recall_update_loop (pre_p @ ps) (pre_l @ l # ls) [?k..<?k + length (l # ls)] self =
        Recall_update_loop ((pre_p @ [p]) @ ps') ((pre_l @ [l]) @ ls)
          [length (pre_p @ [p])..<length (pre_p @ [p]) + length ls] ?s"
    unfolding idx using Cons.prems(1) by (simp add: ps nth_append Let_def)
  have ih: "Recall_update_loop ((pre_p @ [p]) @ ps') ((pre_l @ [l]) @ ls)
          [length (pre_p @ [p])..<length (pre_p @ [p]) + length ls] ?s =
     Inr (?s\<lparr>Recall.tp := Recall.tp ?s +
               int (length (filter (\<lambda>(p, l). l = 1 \<and> p = l) (zip ps' ls))),
             fn := fn ?s +
               int (length (filter (\<lambda>(p, l). l = 1 \<and> p \<noteq> l) (zip ps' ls)))\<rparr>)"
    using Cons.prems by (intro Cons.IH) (simp_all add: ps)
  show ?case
    unfolding step ih by (simp add: ps)
qed

lemma Recall_update_loop_counts:
  assumes "length ls \<le> length ps"
  shows "Recall_update_loop ps ls [0..<length ls] self =
   Inr (self\<lparr>Recall.tp := Recall.tp self +
               int (length (filter (\<lambda>(p, l). l = 1 \<and> p = l) (zip ps ls))),
             fn := fn self +
               int (length (filter (\<lambda>(p, l). l = 1 \<and> p \<noteq> l) (zip ps ls)))\<rparr>)"
  using Recall_update_loop_offset[of "[]" "[]" ls ps self] assms by simp

lemma Precision_update_loop_error:
  "Precision_update_loop ps ls ixs s = Inl e \<Longrightarrow> e = IndexError"
  by (induction ixs arbitrary: s) (auto simp: Let_def split: if_splits)

lemma Recall_update_loop_error:
  "Recall_update_loop ps ls ixs s = Inl e \<Longrightarrow> e = IndexError"
  by (induction ixs arbitrary: s) (auto simp: Let_def split: if_splits)

lemma length_filter_zip_map:
  "length (filter P (zip (map f ps) ls)) = length (filter (\<lambda>(p, l). P (f p, l)) (zip ps ls))"
proof -
  have "zip (map f ps) ls = map (\<lambda>(p, l). (f p, l)) (zip ps ls)"
    by (simp add: zip_map1)
  then show ?thesis
    by (simp add: filter_map comp_def case_prod_unfold)
qed

lemma Precision_update_arrays:
  assumes "length labels \<le> length preds"
  shows "Precision_update self (Numpy preds) (Numpy labels) =
         Inr (Precision_add (zip preds labels) self)"
  using assms
  by (simp add: Precision_update_def Precision_add_def Precision_update_loop_counts
      length_filter_zip_map)

lemma Recall_update_arrays:
  assumes "length labels \<le> length preds"
  shows "Recall_update self (Numpy preds) (Numpy labels) =
         Inr (Recall_add (zip preds labels) self)"
  using assms
  by (simp add: Recall_update_def Recall_add_def Recall_update_loop_counts
      length_filter_zip_map)




lemma Precision_add_append:
  "Precision_add ys (Precision_add xs self) = Precision_add (xs @ ys) self"
  by (simp add: Precision_add_def)

lemma Recall_add_append:
  "Recall_add ys (Recall_add xs self) = Recall_add (xs @ ys) self"
  by (simp add: Recall_add_def)

lemma Precision_feed_concat: "Precision_feed self bs = Inr (Precision_add (concat bs) self)"
proof (induction bs arbitrary: self)
  case Nil
  show ?case by (simp add: Precision_add_def)
next
  case (Cons b bs)
  have "Precision_update self (Numpy (map fst b)) (Numpy (map snd b)) = Inr (Precision_add b self)"
    using Precision_update_arrays[of "map snd b" "map fst b" self] by (simp add: zip_map_fst_snd)
  then show ?case by (simp add: Cons.IH Precision_add_append)
qed

lemma Recall_feed_concat: "Recall_feed self bs = Inr (Recall_add (concat bs) self)"
proof (induction bs arbitrary: self)
  case Nil
  show ?case by (simp add: Recall_add_def)
next
  case (Cons b bs)
  have "Recall_update self (Numpy (map fst b)) (Numpy (map snd b)) = Inr (Recall_add b self)"
    using Recall_update_arrays[of "map snd b" "map fst b" self] by (simp add: zip_map_fst_snd)
  then show ?case by (simp add: Cons.IH Recall_add_append)
qed

lemma Precision_counters_nonneg:
  "0 \<le> Precision.tp p \<Longrightarrow> 0 \<le> fp p \<Longrightarrow> Precision_feed p bs = Inr p' \<Longrightarrow>
   0 \<le> Precision.tp p' \<and> 0 \<le> fp p'"
  by (auto simp: Precision_feed_concat Precision_add_def)

lemma Recall_counters_nonneg:
  "0 \<le> Recall.tp r \<Longrightarrow> 0 \<le> fn r \<Longrightarrow> Recall_feed r bs = Inr r' \<Longrightarrow>
   0 \<le> Recall.tp r' \<and> 0 \<le> fn r'"
  by (auto simp: Recall_feed_concat Recall_add_def)

subsection \<open>\<open>Auc.update\<close>\<close>


lemma Auc_init_lengths:
  assumes "Auc_init n = Inr a"
  shows "num_thresholds a = n \<and> - 1 \<le> n \<and>
         length (stat_pos a) = nat (n + 1) \<and> length (stat_neg a) = nat (n + 1)"
  using assms by (auto simp: Auc_init_def np_zeros_def Let_def split: if_splits)

lemma Auc_init_inv: "0 \<le> n \<Longrightarrow> \<exists>a. Auc_init n = Inr a \<and> Auc_inv a"
  by (simp add: Auc_init_def np_zeros_def Let_def Auc_inv_def)

lemma Auc_reset_lengths:
  assumes "Auc_reset a = Inr a'"
  shows "num_thresholds a' = num_thresholds a \<and>
         length (stat_pos a') = nat (num_thresholds a + 1) \<and>
         length (stat_neg a') = nat (num_thresholds a + 1)"
  using assms by (auto simp: Auc_reset_def np_zeros_def Let_def split: if_splits)


lemma Auc_put_num_thresholds [simp]: "num_thresholds (Auc_put x self) = num_thresholds self"
  by (simp add: Auc_put_def Let_def)



lemma Auc_update_loop_error:
  "Auc_update_loop ps ils s = Inl e \<Longrightarrow> e = IndexError \<or> e = AssertionError"
proof (induction ils arbitrary: s)
  case Nil
  then show ?case by simp
next
  case (Cons il ils)
  obtain i lbl where il: "il = (i, lbl)" by (cases il)
  from Cons.prems show ?case
    by (auto simp: il Let_def np_index_def split: if_splits sum.splits dest: Cons.IH)
qed

lemma Auc_update_loop_lengths:
  "Auc_update_loop ps ils s = Inr s' \<Longrightarrow>
   num_thresholds s' = num_thresholds s \<and>
   length (stat_pos s') = length (stat_pos s) \<and> length (stat_neg s') = length (stat_neg s)"
proof (induction ils arbitrary: s)
  case Nil
  then show ?case by simp
next
  case (Cons il ils)
  obtain i lbl where il: "il = (i, lbl)" by (cases il)
  from Cons.prems show ?case
    by (auto simp: il Let_def split: if_splits sum.splits dest!: Cons.IH)
qed

lemma Auc_update_inv:
  "Auc_inv a \<Longrightarrow> Auc_update a preds labels = Inr a' \<Longrightarrow> Auc_inv a'"
  by (auto simp: Auc_update_def Auc_inv_def split: option.splits dest!: Auc_update_loop_lengths)







subsection \<open>\<open>Auc.accumulate\<close>\<close>

text \<open>
  One turn of the \<open>while\<close> loop is one step of the specification's walk; the loop
  started at \<open>k - 1\<close> visits the buckets \<open>k - 1, ..., 0\<close>.
\<close>

lemma Auc_accumulate_loop_unfold:
  "k < length (stat_pos self) \<Longrightarrow> k < length (stat_neg self) \<Longrightarrow>
   Auc_accumulate_loop self (int k) a b c =
   Auc_accumulate_loop self (int k - 1)
     (a + stat_pos self ! k) (b + stat_neg self ! k)
     (c + trapezoid_area (b + stat_neg self ! k) b (a + stat_pos self ! k) a)"
  by (subst Auc_accumulate_loop.simps) (simp add: np_index_def Let_def)

lemma Auc_accumulate_loop_done:
  "idx < 0 \<Longrightarrow> Auc_accumulate_loop self idx a b c = Inr (a, b, c)"
  by (subst Auc_accumulate_loop.simps) simp

lemma Auc_accumulate_loop_error:
  "Auc_accumulate_loop self idx a b auc = Inl e \<Longrightarrow> e = IndexError"
proof (induction self idx a b auc rule: Auc_accumulate_loop.induct)
  case (1 self idx tot_pos tot_neg auc)
  note unf = Auc_accumulate_loop.simps[of self idx tot_pos tot_neg auc]
  show ?case
  proof (cases "idx \<ge> 0")
    case False
    with "1.prems" show ?thesis by (simp add: unf)
  next
    case True
    show ?thesis
    proof (cases "np_index (length (stat_pos self)) idx")
      case (Inl e1)
      with True "1.prems" show ?thesis
        by (simp add: unf np_index_def split: if_splits)
    next
      case (Inr jp)
      note jp = this
      show ?thesis
      proof (cases "np_index (length (stat_neg self)) idx")
        case (Inl e2)
        with True jp "1.prems" show ?thesis
          by (simp add: unf np_index_def split: if_splits)
      next
        case (Inr jn)
        with True jp "1.prems" "1.IH"[OF True jp Inr refl refl refl refl refl] show ?thesis
          by (simp add: unf Let_def)
      qed
    qed
  qed
qed

lemma Auc_accumulate_loop_zeros:
  assumes "length (stat_pos self) = n" "length (stat_neg self) = n"
    and "\<forall>x\<in>set (stat_pos self). x = 0" "\<forall>x\<in>set (stat_neg self). x = 0"
  shows "k \<le> n \<Longrightarrow> Auc_accumulate_loop self (int k - 1) 0 0 0 = Inr (0, 0, 0)"
proof (induction k)
  case 0
  show ?case by (simp add: Auc_accumulate_loop_done)
next
  case (Suc k)
  then have k: "k < n" by simp
  have p: "stat_pos self ! k = 0" using assms(1,3) k by simp
  have q: "stat_neg self ! k = 0" using assms(2,4) k by simp
  have "Auc_accumulate_loop self (int (Suc k) - 1) 0 0 0 =
        Auc_accumulate_loop self (int k - 1) 0 0 0"
    using k assms(1,2) p q Auc_accumulate_loop_unfold[of k self 0 0 0]
    by (simp add: trapezoid_area_def)
  with Suc show ?case by simp
qed

lemma Auc_spec_step_source:
  "Auc_spec_step pos neg k (a, b, c) =
   (a + pos ! k, b + neg ! k, c + trapezoid_area (b + neg ! k) b (a + pos ! k) a)"
  by (simp add: Auc_spec_step_def trapezoid_area_def Let_def abs_minus_commute add.commute)

lemma Auc_accumulate_loop_fold:
  "k \<le> length (stat_pos self) \<Longrightarrow> k \<le> length (stat_neg self) \<Longrightarrow>
   Auc_accumulate_loop self (int k - 1) a b c =
   Inr (fold (Auc_spec_step (stat_pos self) (stat_neg self)) (rev [0..<k]) (a, b, c))"
proof (induction k arbitrary: a b c)
  case 0
  show ?case by (simp add: Auc_accumulate_loop_done)
next
  case (Suc k)
  let ?S = "Auc_spec_step (stat_pos self) (stat_neg self)"
  have f: "fold ?S (rev [0..<Suc k]) (a, b, c) = fold ?S (rev [0..<k]) (?S k (a, b, c))"
    by simp
  have "Auc_accumulate_loop self (int (Suc k) - 1) a b c =
        Auc_accumulate_loop self (int k - 1)
          (a + stat_pos self ! k) (b + stat_neg self ! k)
          (c + trapezoid_area (b + stat_neg self ! k) b (a + stat_pos self ! k) a)"
    using Suc.prems Auc_accumulate_loop_unfold[of k self a b c] by simp
  also have "\<dots> = Inr (fold ?S (rev [0..<k])
          (a + stat_pos self ! k, b + stat_neg self ! k,
           c + trapezoid_area (b + stat_neg self ! k) b (a + stat_pos self ! k) a))"
    using Suc.prems by (intro Suc.IH) simp_all
  also have "\<dots> = Inr (fold ?S (rev [0..<Suc k]) (a, b, c))"
    unfolding f Auc_spec_step_source by (rule refl)
  finally show ?case .
qed

lemma Auc_spec_walk_totals:
  "k \<le> length pos \<Longrightarrow> k \<le> length neg \<Longrightarrow>
   fst (fold (Auc_spec_step pos neg) (rev [0..<k]) (a, b, c)) = a + sum_list (take k pos) \<and>
   fst (snd (fold (Auc_spec_step pos neg) (rev [0..<k]) (a, b, c))) = b + sum_list (take k neg)"
proof (induction k arbitrary: a b c)
  case 0
  show ?case by simp
next
  case (Suc k)
  have k: "k < length pos" "k < length neg" using Suc.prems by simp_all
  have "fold (Auc_spec_step pos neg) (rev [0..<Suc k]) (a, b, c) =
        fold (Auc_spec_step pos neg) (rev [0..<k])
          (a + pos ! k, b + neg ! k, c + \<bar>b - (b + neg ! k)\<bar> * (a + (a + pos ! k)) / 2)"
    by (simp add: Auc_spec_step_def Let_def)
  then show ?case
    using Suc.IH[of "a + pos ! k" "b + neg ! k"] k
    by (simp add: take_Suc_conv_app_nth)
qed

lemma Auc_accumulate_refines:
  assumes "length (stat_pos self) = nat (num_thresholds self + 1)"
    and "length (stat_neg self) = nat (num_thresholds self + 1)"
  shows "Auc_accumulate self = (Inr (Auc_accumulate_spec self), self)"
proof -
  let ?k = "nat (num_thresholds self + 1)"
  have loop: "Auc_accumulate_loop self (num_thresholds self) 0 0 0 = Inr (Auc_spec_walk self)"
  proof (cases "0 \<le> num_thresholds self + 1")
    case True
    then have "num_thresholds self = int ?k - 1" by simp
    then show ?thesis
      using Auc_accumulate_loop_fold[of ?k self 0 0 0] assms
      by (simp add: Auc_spec_walk_def)
  next
    case False
    then show ?thesis
      by (simp add: Auc_accumulate_loop_done Auc_spec_walk_def)
  qed
  obtain a b c where w: "Auc_spec_walk self = (a, b, c)"
    by (cases "Auc_spec_walk self")
  show ?thesis
    unfolding Auc_accumulate_def loop
    by (simp add: w Auc_accumulate_spec_def truediv_def)
qed

lemma Auc_spec_walk_sums:
  assumes "length (stat_pos self) = nat (num_thresholds self + 1)"
    and "length (stat_neg self) = nat (num_thresholds self + 1)"
  shows "fst (Auc_spec_walk self) = sum_list (stat_pos self)"
    and "fst (snd (Auc_spec_walk self)) = sum_list (stat_neg self)"
  using Auc_spec_walk_totals[of "nat (num_thresholds self + 1)" "stat_pos self" "stat_neg self" 0 0 0]
    assms
  by (simp_all add: Auc_spec_walk_def)

lemma Auc_accumulate_reset:
  assumes "- 1 \<le> num_thresholds a"
  shows "\<exists>a'. Auc_reset a = Inr a' \<and> fst (Auc_accumulate a') = Inr 0"
proof -
  let ?n = "nat (num_thresholds a + 1)"
  let ?a = "a\<lparr>stat_pos := replicate ?n 0, stat_neg := replicate ?n 0\<rparr>"
  have r: "Auc_reset a = Inr ?a"
    using assms by (simp add: Auc_reset_def np_zeros_def Let_def)
  have idx: "num_thresholds ?a = int ?n - 1" using assms by simp
  have "Auc_accumulate_loop ?a (int ?n - 1) 0 0 0 = Inr (0, 0, 0)"
    by (rule Auc_accumulate_loop_zeros[of ?a ?n ?n]) simp_all
  then have "fst (Auc_accumulate ?a) = Inr 0"
    unfolding Auc_accumulate_def idx by simp
  with r show ?thesis by simp
qed

lemma Auc_accumulate_no_zerodiv: "fst (Auc_accumulate a) \<noteq> Inl ZeroDivisionError"
proof (cases "Auc_accumulate_loop a (num_thresholds a) 0 0 0")
  case (Inl e)
  then have "e = IndexError" by (rule Auc_accumulate_loop_error)
  with Inl show ?thesis by (simp add: Auc_accumulate_def)
next
  case (Inr t)
  then show ?thesis
    by (cases t) (simp add: Auc_accumulate_def truediv_def)
qed


section \<open>The claims\<close>

text \<open>
  Claim C1. \<open>Auc.accumulate\<close> walks the bucket index from \<open>num_thresholds\<close> down to
  0, keeps the running totals \<open>tot_pos\<close> and \<open>tot_neg\<close> of \<open>stat_pos\<close> and
  \<open>stat_neg\<close>, adds at each step the trapezoid area between the previous and the
  current pair of totals, and returns \<open>auc / tot_pos / tot_neg\<close> when both final
  totals are positive and 0 otherwise: on an object whose histograms have
  \<open>num_thresholds + 1\<close> slots, the source's loop returns the value of
  \<open>Auc_accumulate_spec\<close>, and the final totals of the walk are the sums of the two
  histograms.
\<close>

theorem Auc_accumulate_trapezoid:
  assumes "length (stat_pos self) = nat (num_thresholds self + 1)"
    and "length (stat_neg self) = nat (num_thresholds self + 1)"
  shows "fst (Auc_accumulate self) = Inr (Auc_accumulate_spec self) \<and>
         fst (Auc_spec_walk self) = sum_list (stat_pos self) \<and>
         fst (snd (Auc_spec_walk self)) = sum_list (stat_neg self)"
  using Auc_accumulate_refines[OF assms] Auc_spec_walk_sums[OF assms] by simp

theorem Auc_accumulate_trapezoid_witness:
  "fst (Auc_accumulate \<lparr>num_thresholds = 1, stat_pos = [0, 1], stat_neg = [1, 0]\<rparr>) = Inr 1"
proof -
  have w: "Auc_spec_walk \<lparr>num_thresholds = 1, stat_pos = [0, 1], stat_neg = [1, 0]\<rparr> = (1, 1, 1)"
    by (simp add: Auc_spec_walk_def Auc_spec_step_def upt_rec)
  show ?thesis
    using Auc_accumulate_trapezoid[of "\<lparr>num_thresholds = 1, stat_pos = [0, 1], stat_neg = [1, 0]\<rparr>"]
    by (simp add: Auc_accumulate_spec_def w)
qed

text \<open>
  Claim C2. For \<open>Accuracy(topk=(1,))\<close>, the predictions and labels of the class
  documentation give the mask \<open>[[0], [1], [1], [1]]\<close> in \<open>compute\<close>, \<open>update\<close> adds
  3 to \<open>total\<close> and 4 to \<open>count\<close>, and \<open>accumulate\<close> returns exactly 0.75.
\<close>

theorem Accuracy_top1_example:
  "Accuracy_init [1] = Inr \<lparr>topk = [1], maxk = 1, total_acc = [0], count_acc = [0]\<rparr> \<and>
   Accuracy_compute \<lparr>topk = [1], maxk = 1, total_acc = [0], count_acc = [0]\<rparr>
     [[0.1, 0.2, 0.3, 0.4], [0.1, 0.4, 0.3, 0.2], [0.1, 0.2, 0.4, 0.3], [0.1, 0.2, 0.3, 0.4]]
     [[0], [1], [2], [3]] = Inr [[0], [1], [1], [1]] \<and>
   Accuracy_update \<lparr>topk = [1], maxk = 1, total_acc = [0], count_acc = [0]\<rparr>
     [[0], [1], [1], [1]] =
     Inr (Scalar 0.75, \<lparr>topk = [1], maxk = 1, total_acc = [3], count_acc = [4]\<rparr>) \<and>
   fst (Accuracy_accumulate \<lparr>topk = [1], maxk = 1, total_acc = [3], count_acc = [4]\<rparr>) =
     Inr (Scalar 0.75)"
proof -
  have init: "Accuracy_init [1] = Inr \<lparr>topk = [1], maxk = 1, total_acc = [0], count_acc = [0]\<rparr>"
    by (simp add: Accuracy_init_def Accuracy_reset_def)
  have compute: "Accuracy_compute \<lparr>topk = [1], maxk = 1, total_acc = [0], count_acc = [0]\<rparr>
     [[0.1, 0.2, 0.3, 0.4], [0.1, 0.4, 0.3, 0.2], [0.1, 0.2, 0.4, 0.3], [0.1, 0.2, 0.3, 0.4]]
     [[0], [1], [2], [3]] = Inr [[0], [1], [1], [1]]"
    by (simp add: Accuracy_compute_def argsort_descending_def upt_rec)
  have update: "Accuracy_update \<lparr>topk = [1], maxk = 1, total_acc = [0], count_acc = [0]\<rparr>
     [[0], [1], [1], [1]] =
     Inr (Scalar 0.75, \<lparr>topk = [1], maxk = 1, total_acc = [3], count_acc = [4]\<rparr>)"
    by (simp add: Accuracy_update_def enumerate_eq_zip upt_rec truediv_def collapse_def)
  have acc: "fst (Accuracy_accumulate \<lparr>topk = [1], maxk = 1, total_acc = [3], count_acc = [4]\<rparr>) =
     Inr (Scalar 0.75)"
    by (simp add: Accuracy_accumulate_def truediv_def collapse_def)
  from init compute update acc show ?thesis by (intro conjI)
qed

theorem Accuracy_top1_example_witness:
  "(case Accuracy_init [1] of
      Inl e \<Rightarrow> Inl e
    | Inr m \<Rightarrow>
        (case Accuracy_compute m
            [[0.1, 0.2, 0.3, 0.4], [0.1, 0.4, 0.3, 0.2], [0.1, 0.2, 0.4, 0.3], [0.1, 0.2, 0.3, 0.4]]
            [[0], [1], [2], [3]] of
           Inl e \<Rightarrow> Inl e
         | Inr correct \<Rightarrow>
             (case Accuracy_update m correct of
                Inl e \<Rightarrow> Inl e
              | Inr (r, m') \<Rightarrow> fst (Accuracy_accumulate m')))) = Inr (Scalar (3 / 4))"
  using Accuracy_top1_example by simp



text \<open>
  Claim C4. \<open>Recall.update\<close> rounds every prediction with \<open>np.rint\<close>, which is at
  most one half away from it; every sample whose label is 1 adds one to \<open>tp\<close> when the
  rounded prediction equals the label and one to \<open>fn\<close> otherwise, and the other
  samples change nothing. \<open>accumulate\<close> returns \<open>tp / (tp + fn)\<close> when \<open>tp + fn > 0\<close>
  and 0 otherwise. On \<open>preds = [0.1, 0.5, 0.6, 0.7]\<close>, \<open>labels = [1, 0, 1, 1]\<close> the
  result is \<open>2.0 / 3.0\<close>.
\<close>

theorem Recall_update_accumulate:
  "(length labels \<le> length preds \<longrightarrow>
      Recall_update self (Numpy preds) (Numpy labels) =
      Inr (self\<lparr>Recall.tp := Recall.tp self +
                  int (length (filter (\<lambda>(p, l). l = 1 \<and> rint p = l) (zip preds labels))),
                fn := fn self +
                  int (length (filter (\<lambda>(p, l). l = 1 \<and> rint p \<noteq> l) (zip preds labels)))\<rparr>)) \<and>
   \<bar>x - of_int (rint x)\<bar> \<le> 1 / 2 \<and>
   (0 \<le> Recall.tp self \<and> 0 \<le> fn self \<longrightarrow>
      fst (Recall_accumulate self) =
      Inr (if Recall.tp self + fn self > 0
           then of_int (Recall.tp self) / of_int (Recall.tp self + fn self)
           else 0)) \<and>
   Recall_update Recall_init (Numpy [0.1, 0.5, 0.6, 0.7]) (Numpy [1, 0, 1, 1]) =
     Inr \<lparr>Recall.tp = 2, fn = 1\<rparr> \<and>
   fst (Recall_accumulate \<lparr>Recall.tp = 2, fn = 1\<rparr>) = Inr (2.0 / 3.0)"
proof (intro conjI impI)
  assume "length labels \<le> length preds"
  then show "Recall_update self (Numpy preds) (Numpy labels) =
      Inr (self\<lparr>Recall.tp := Recall.tp self +
                  int (length (filter (\<lambda>(p, l). l = 1 \<and> rint p = l) (zip preds labels))),
                fn := fn self +
                  int (length (filter (\<lambda>(p, l). l = 1 \<and> rint p \<noteq> l) (zip preds labels)))\<rparr>)"
    by (simp add: Recall_update_arrays Recall_add_def)
next
  show "\<bar>x - of_int (rint x)\<bar> \<le> 1 / 2" by (rule rint_nearest)
next
  assume "0 \<le> Recall.tp self \<and> 0 \<le> fn self"
  then show "fst (Recall_accumulate self) =
      Inr (if Recall.tp self + fn self > 0
           then of_int (Recall.tp self) / of_int (Recall.tp self + fn self)
           else 0)"
    by (auto simp: Recall_accumulate_def Let_def truediv_def)
next
  show "Recall_update Recall_init (Numpy [0.1, 0.5, 0.6, 0.7]) (Numpy [1, 0, 1, 1]) =
     Inr \<lparr>Recall.tp = 2, fn = 1\<rparr>"
    by (simp add: Recall_update_arrays Recall_add_def Recall_init_def rint_def Let_def)
next
  show "fst (Recall_accumulate \<lparr>Recall.tp = 2, fn = 1\<rparr>) = Inr (2.0 / 3.0)"
    by (simp add: Recall_accumulate_def truediv_def)
qed

theorem Recall_update_accumulate_witness:
  "Recall_update \<lparr>Recall.tp = 1, fn = 1\<rparr> (Numpy [0.5, 1.5, 0.2, 2.5]) (Numpy [1, 1, 0, 1]) =
     Inr \<lparr>Recall.tp = 1, fn = 4\<rparr> \<and>
   fst (Recall_accumulate \<lparr>Recall.tp = 1, fn = 1\<rparr>) = Inr (1 / 2)"
  using Recall_update_accumulate[of "[1, 1, 0, 1]" "[0.5, 1.5, 0.2, 2.5]" "\<lparr>Recall.tp = 1, fn = 1\<rparr>"]
  by (simp add: rint_def Let_def)





text \<open>
  Claim C7. \<open>reset()\<close> followed by \<open>accumulate()\<close> returns 0 for Precision, Recall
  and Auc (whose constructor needs \<open>num_thresholds \<ge> -1\<close>) and, for Accuracy, 0 with one
  cutoff and the list of zeros otherwise; and in no state at all does an
  \<open>accumulate\<close> raise ZeroDivisionError.
\<close>

theorem reset_then_accumulate_zero:
  "fst (Accuracy_accumulate (Accuracy_reset m)) =
     (if length (topk m) = 1 then Inr (Scalar 0)
      else Inr (Sequence (replicate (length (topk m)) 0))) \<and>
   fst (Precision_accumulate (Precision_reset p)) = Inr 0 \<and>
   fst (Recall_accumulate (Recall_reset r)) = Inr 0 \<and>
   (- 1 \<le> num_thresholds a \<longrightarrow>
      (\<exists>a'. Auc_reset a = Inr a' \<and> fst (Auc_accumulate a') = Inr 0)) \<and>
   fst (Accuracy_accumulate m) \<noteq> Inl ZeroDivisionError \<and>
   fst (Precision_accumulate p) \<noteq> Inl ZeroDivisionError \<and>
   fst (Recall_accumulate r) \<noteq> Inl ZeroDivisionError \<and>
   fst (Auc_accumulate a) \<noteq> Inl ZeroDivisionError"
proof (intro conjI impI)
  show "fst (Accuracy_accumulate (Accuracy_reset m)) =
     (if length (topk m) = 1 then Inr (Scalar 0)
      else Inr (Sequence (replicate (length (topk m)) 0)))"
    by (rule Accuracy_accumulate_reset)
  show "fst (Precision_accumulate (Precision_reset p)) = Inr 0"
    by (simp add: Precision_accumulate_def Precision_reset_def)
  show "fst (Recall_accumulate (Recall_reset r)) = Inr 0"
    by (simp add: Recall_accumulate_def Recall_reset_def)
  show "\<exists>a'. Auc_reset a = Inr a' \<and> fst (Auc_accumulate a') = Inr 0"
    if "- 1 \<le> num_thresholds a"
    using that by (rule Auc_accumulate_reset)
  show "fst (Accuracy_accumulate m) \<noteq> Inl ZeroDivisionError"
    using Accuracy_accumulate_loop_total[of "zip (total_acc m) (count_acc m)" "[]"]
    by (auto simp: Accuracy_accumulate_def collapse_def split: list.splits if_splits)
  show "fst (Precision_accumulate p) \<noteq> Inl ZeroDivisionError"
    by (simp add: Precision_accumulate_def Let_def truediv_def)
  show "fst (Recall_accumulate r) \<noteq> Inl ZeroDivisionError"
    by (simp add: Recall_accumulate_def Let_def truediv_def)
  show "fst (Auc_accumulate a) \<noteq> Inl ZeroDivisionError"
    by (rule Auc_accumulate_no_zerodiv)
qed

theorem reset_then_accumulate_zero_witness:
  "fst (Accuracy_accumulate (Accuracy_reset
      \<lparr>topk = [1, 5], maxk = 5, total_acc = [3, 4], count_acc = [4, 4]\<rparr>)) = Inr (Sequence [0, 0]) \<and>
   fst (Precision_accumulate (Precision_reset \<lparr>Precision.tp = 3, fp = 1\<rparr>)) = Inr 0 \<and>
   fst (Recall_accumulate (Recall_reset \<lparr>Recall.tp = 2, fn = 1\<rparr>)) = Inr 0 \<and>
   (\<exists>a'. Auc_reset \<lparr>num_thresholds = 2, stat_pos = [0, 1, 0], stat_neg = [1, 1, 0]\<rparr> = Inr a' \<and>
      fst (Auc_accumulate a') = Inr 0)"
  using reset_then_accumulate_zero[of
      "\<lparr>topk = [1, 5], maxk = 5, total_acc = [3, 4], count_acc = [4, 4]\<rparr>"
      "\<lparr>Precision.tp = 3, fp = 1\<rparr>" "\<lparr>Recall.tp = 2, fn = 1\<rparr>"
      "\<lparr>num_thresholds = 2, stat_pos = [0, 1, 0], stat_neg = [1, 1, 0]\<rparr>"]
  by (simp add: numeral_2_eq_2)

text \<open>
  Claim C8. For each of the four metrics and every state, \<open>accumulate()\<close> leaves the
  object as it was, and a second call right after the first returns the same value.
\<close>

theorem accumulate_is_pure_read:
  "snd (Accuracy_accumulate m) = m \<and>
   fst (Accuracy_accumulate (snd (Accuracy_accumulate m))) = fst (Accuracy_accumulate m) \<and>
   snd (Precision_accumulate p) = p \<and>
   fst (Precision_accumulate (snd (Precision_accumulate p))) = fst (Precision_accumulate p) \<and>
   snd (Recall_accumulate r) = r \<and>
   fst (Recall_accumulate (snd (Recall_accumulate r))) = fst (Recall_accumulate r) \<and>
   snd (Auc_accumulate a) = a \<and>
   fst (Auc_accumulate (snd (Auc_accumulate a))) = fst (Auc_accumulate a)"
  by (simp add: Accuracy_accumulate_def Precision_accumulate_def Recall_accumulate_def
      Auc_accumulate_def Let_def)

theorem accumulate_is_pure_read_witness:
  "snd (Accuracy_accumulate \<lparr>topk = [1], maxk = 1, total_acc = [3], count_acc = [4]\<rparr>) =
     \<lparr>topk = [1], maxk = 1, total_acc = [3], count_acc = [4]\<rparr> \<and>
   snd (Precision_accumulate \<lparr>Precision.tp = 3, fp = 0\<rparr>) = \<lparr>Precision.tp = 3, fp = 0\<rparr> \<and>
   snd (Recall_accumulate \<lparr>Recall.tp = 2, fn = 1\<rparr>) = \<lparr>Recall.tp = 2, fn = 1\<rparr> \<and>
   snd (Auc_accumulate \<lparr>num_thresholds = 1, stat_pos = [0, 1], stat_neg = [1, 0]\<rparr>) =
     \<lparr>num_thresholds = 1, stat_pos = [0, 1], stat_neg = [1, 0]\<rparr>"
  using accumulate_is_pure_read[of
      "\<lparr>topk = [1], maxk = 1, total_acc = [3], count_acc = [4]\<rparr>"
      "\<lparr>Precision.tp = 3, fp = 0\<rparr>" "\<lparr>Recall.tp = 2, fn = 1\<rparr>"
      "\<lparr>num_thresholds = 1, stat_pos = [0, 1], stat_neg = [1, 0]\<rparr>"]
  by simp

text \<open>
  Claim C9. For Precision, Recall and Auc, \<open>update(preds, labels)\<close> raises the error
  whose message names \<open>'preds'\<close> or \<open>'labels'\<close> when that argument is neither a
  tensor nor a numpy value (the first one checked, when both are: \<open>preds\<close> in
  Precision and Recall, \<open>labels\<close> in Auc); a tensor argument is converted and treated
  as the array it holds, and accepted arguments never raise this error.
\<close>

theorem update_rejects_other_arguments:
  "(\<not> is_Tensor preds \<and> \<not> is_numpy preds \<longrightarrow>
      Precision_update p preds labels =
        Inl (ValueError ''The 'preds' must be a numpy ndarray or Tensor.'') \<and>
      Recall_update r preds labels =
        Inl (ValueError ''The 'preds' must be a numpy ndarray or Tensor.'')) \<and>
   ((is_Tensor preds \<or> is_numpy preds) \<and> \<not> is_Tensor labels \<and> \<not> is_numpy labels \<longrightarrow>
      Precision_update p preds labels =
        Inl (ValueError ''The 'labels' must be a numpy ndarray or Tensor.'') \<and>
      Recall_update r preds labels =
        Inl (ValueError ''The 'labels' must be a numpy ndarray or Tensor.'')) \<and>
   (\<not> is_Tensor labels \<and> \<not> is_numpy labels \<longrightarrow>
      Auc_update a apreds labels =
        Inl (ValueError ''The 'labels' must be a numpy ndarray or Tensor.'')) \<and>
   ((is_Tensor labels \<or> is_numpy labels) \<and> \<not> is_Tensor apreds \<and> \<not> is_numpy apreds \<longrightarrow>
      Auc_update a apreds labels =
        Inl (ValueError ''The 'preds' must be a numpy ndarray or Tensor.'')) \<and>
   Precision_update p (Tensor xs) (Tensor ls) = Precision_update p (Numpy xs) (Numpy ls) \<and>
   Recall_update r (Tensor xs) (Tensor ls) = Recall_update r (Numpy xs) (Numpy ls) \<and>
   Auc_update a (Tensor ys) (Tensor ls) = Auc_update a (Numpy ys) (Numpy ls) \<and>
   ((is_Tensor preds \<or> is_numpy preds) \<and> (is_Tensor labels \<or> is_numpy labels) \<longrightarrow>
      (\<forall>msg. Precision_update p preds labels \<noteq> Inl (ValueError msg)) \<and>
      (\<forall>msg. Recall_update r preds labels \<noteq> Inl (ValueError msg))) \<and>
   ((is_Tensor apreds \<or> is_numpy apreds) \<and> (is_Tensor labels \<or> is_numpy labels) \<longrightarrow>
      (\<forall>msg. Auc_update a apreds labels \<noteq> Inl (ValueError msg)))"
proof -
  have P: "Precision_update_loop xs' ls' ixs p \<noteq> Inl (ValueError msg)" for xs' ls' ixs msg
    using Precision_update_loop_error[of xs' ls' ixs p "ValueError msg"] by auto
  have R: "Recall_update_loop xs' ls' ixs r \<noteq> Inl (ValueError msg)" for xs' ls' ixs msg
    using Recall_update_loop_error[of xs' ls' ixs r "ValueError msg"] by auto
  have A: "Auc_update_loop ys' ils a \<noteq> Inl (ValueError msg)" for ys' ils msg
    using Auc_update_loop_error[of ys' ils a "ValueError msg"] by auto
  show ?thesis
    by (cases preds; cases labels; cases apreds)
       (simp_all add: Precision_update_def Recall_update_def Auc_update_def P R A)
qed

theorem update_rejects_other_arguments_witness:
  "Precision_update Precision_init Other (Numpy [1]) =
     Inl (ValueError ''The 'preds' must be a numpy ndarray or Tensor.'') \<and>
   Recall_update Recall_init Other (Numpy [1]) =
     Inl (ValueError ''The 'preds' must be a numpy ndarray or Tensor.'') \<and>
   Auc_update \<lparr>num_thresholds = 1, stat_pos = [0, 0], stat_neg = [0, 0]\<rparr>
       (Tensor [(0.5, 0.5)]) (Tensor [1]) =
     Auc_update \<lparr>num_thresholds = 1, stat_pos = [0, 0], stat_neg = [0, 0]\<rparr>
       (Numpy [(0.5, 0.5)]) (Numpy [1])"
  using update_rejects_other_arguments[of Other Precision_init "Numpy [1]" Recall_init
      "\<lparr>num_thresholds = 1, stat_pos = [0, 0], stat_neg = [0, 0]\<rparr>" "Tensor [(0.5, 0.5)]"
      "[]" "[1]" "[(0.5, 0.5)]"]
  by simp

text \<open>
  Claim C10. \<open>Accuracy.update\<close> on a mask with no rows raises ZeroDivisionError at the
  per-batch ratio, whatever the counters hold, while \<open>accumulate\<close> on the freshly reset
  object, whose counts are zero as well, does not.
\<close>

theorem Accuracy_update_empty_batch_raises:
  assumes "topk self \<noteq> []"
  shows "Accuracy_update self [] = Inl ZeroDivisionError \<and>
         fst (Accuracy_accumulate (Accuracy_reset self)) \<noteq> Inl ZeroDivisionError"
proof -
  have "fst (Accuracy_accumulate (Accuracy_reset self)) \<noteq> Inl ZeroDivisionError"
    by (simp add: Accuracy_accumulate_reset)
  with Accuracy_update_empty[OF assms] show ?thesis by simp
qed

theorem Accuracy_update_empty_batch_raises_witness:
  "Accuracy_update \<lparr>topk = [1], maxk = 1, total_acc = [0], count_acc = [0]\<rparr> [] =
     Inl ZeroDivisionError"
  using Accuracy_update_empty_batch_raises[of
      "\<lparr>topk = [1], maxk = 1, total_acc = [0], count_acc = [0]\<rparr>"]
  by simp

end
